theory Spec2Isabelle
  imports Main
begin

section \<open>Irrigation controller: run state, zones and programs\<close>

text \<open>
  A shallow embedding of \<^verbatim>\<open>program_state.py\<close>, \<^verbatim>\<open>zone_manager.py\<close> and the
  scheduling part of \<^verbatim>\<open>program_manager.py\<close>.

  The three Python modules keep their state in module-level globals. Each module is a
  namespace of its own: \<^verbatim>\<open>from program_state import program_running\<close> binds a new
  name in the importing module to the value the name has at import time, and a later
  assignment in either module rebinds only that module's name. The state below therefore
  holds one copy of \<^verbatim>\<open>program_running\<close> per module that names it: the one of
  \<^verbatim>\<open>program_state\<close> (read and written by \<^verbatim>\<open>load_program_state\<close> and
  \<^verbatim>\<open>save_program_state\<close>), the one of \<^verbatim>\<open>zone_manager\<close> (read by
  \<^verbatim>\<open>start_zone\<close>, assigned nowhere) and the one of \<^verbatim>\<open>program_manager\<close>
  (assigned under \<^verbatim>\<open>global program_running\<close> by \<^verbatim>\<open>execute_program\<close>,
  \<^verbatim>\<open>stop_program\<close> and \<^verbatim>\<open>reset_program_state\<close>).
\<close>

subsection \<open>Python values\<close>

text \<open>
  The values a JSON document or a request hands to the code: \<^verbatim>\<open>None\<close>, a boolean,
  an integer or a string. Floats are left out.
\<close>

datatype pyval = VNone | VBool bool | VInt int | VStr string

text \<open>Truth value of a Python object, as \<^verbatim>\<open>bool(x)\<close> and \<^verbatim>\<open>if x\<close> see it.\<close>

fun truthy :: "pyval \<Rightarrow> bool" where
  "truthy VNone = False"
| "truthy (VBool b) = b"
| "truthy (VInt i) = (i \<noteq> 0)"
| "truthy (VStr s) = (s \<noteq> [])"

text \<open>
  The builtin \<^verbatim>\<open>int\<close> on a string: optional surrounding blanks, an optional sign and at
  least one decimal digit, where single underscores between digits are digit separators
  (\<^verbatim>\<open>"1_0"\<close> is 10); anything else raises ValueError (\<open>None\<close>). The builtin is not
  code of the repository; other bases are not covered.
\<close>

fun position :: "'a \<Rightarrow> 'a list \<Rightarrow> nat option" where
  "position x [] = None"
| "position x (y # ys) = (if x = y then Some 0 else map_option Suc (position x ys))"

definition digit_of :: "char \<Rightarrow> nat option" where
  "digit_of c = position c ''0123456789''"

fun parse_digits :: "nat \<Rightarrow> string \<Rightarrow> nat option" where
  "parse_digits acc [] = Some acc"
| "parse_digits acc (c # cs) =
     (if c = CHR ''_'' then
        (case cs of
           [] \<Rightarrow> None
         | c' # _ \<Rightarrow> if c' = CHR ''_'' then None else parse_digits acc cs)
      else (case digit_of c of None \<Rightarrow> None | Some d \<Rightarrow> parse_digits (10 * acc + d) cs))"

definition is_blank :: "char \<Rightarrow> bool" where
  "is_blank c =
     (c = CHR '' '' \<or> c = CHR 0x09 \<or> c = CHR 0x0A \<or> c = CHR 0x0B \<or> c = CHR 0x0C
      \<or> c = CHR 0x0D)"

definition strip :: "string \<Rightarrow> string" where
  "strip s = rev (dropWhile is_blank (rev (dropWhile is_blank s)))"

definition parse_unsigned :: "string \<Rightarrow> int option" where
  "parse_unsigned s =
     (case s of
        [] \<Rightarrow> None
      | c # _ \<Rightarrow> if c = CHR ''_'' then None else map_option int (parse_digits 0 s))"

definition int_of_str :: "string \<Rightarrow> int option" where
  "int_of_str s =
     (case strip s of
        [] \<Rightarrow> None
      | c # cs \<Rightarrow>
          if c = CHR ''-'' then map_option uminus (parse_unsigned cs)
          else if c = CHR ''+'' then parse_unsigned cs
          else parse_unsigned (c # cs))"

text \<open>\<^verbatim>\<open>int(x)\<close>: \<open>None\<close> stands for the ValueError or TypeError it raises.\<close>

fun py_int :: "pyval \<Rightarrow> int option" where
  "py_int VNone = None"
| "py_int (VBool b) = Some (if b then 1 else 0)"
| "py_int (VInt i) = Some i"
| "py_int (VStr s) = int_of_str s"

subsection \<open>Dictionaries keyed by zone id\<close>

text \<open>
  \<^verbatim>\<open>active_zones\<close> is a \<^verbatim>\<open>dict\<close>; it is kept as an association list read
  through \<open>map_of\<close>. \<open>dict_len\<close> counts the distinct keys, so every list stands for a
  dictionary. An assignment to a key that is present keeps the key's position; a new key
  goes to the end.
\<close>

definition dict_has :: "'k \<Rightarrow> ('k \<times> 'v) list \<Rightarrow> bool" where
  "dict_has k d = (k \<in> fst ` set d)"

definition dict_keys :: "('k \<times> 'v) list \<Rightarrow> 'k list" where
  "dict_keys d = remdups (map fst d)"

definition dict_len :: "('k \<times> 'v) list \<Rightarrow> nat" where
  "dict_len d = length (dict_keys d)"

definition dict_del :: "'k \<Rightarrow> ('k \<times> 'v) list \<Rightarrow> ('k \<times> 'v) list" where
  "dict_del k d = filter (\<lambda>kv. fst kv \<noteq> k) d"

fun dict_set :: "'k \<Rightarrow> 'v \<Rightarrow> ('k \<times> 'v) list \<Rightarrow> ('k \<times> 'v) list" where
  "dict_set k v [] = [(k, v)]"
| "dict_set k v (kv # d) = (if fst kv = k then (k, v) # d else kv # dict_set k v d)"

subsection \<open>Data model\<close>

text \<open>An entry of \<^verbatim>\<open>active_zones\<close>: start time, duration in minutes, timer task.\<close>

record zone_data =
  start_time :: int
  duration :: int
  task :: nat

text \<open>
  A program step as read from JSON: anything that is not a dict, or a dict whose
  \<^verbatim>\<open>zone_id\<close> is a Python value (\<open>VNone\<close> when absent) and whose \<^verbatim>\<open>duration\<close>
  may be absent.
\<close>

datatype step = StepNotDict | Step pyval "pyval option"

record program =
  p_id :: "string option"
  p_name :: "string option"
  steps :: "step list"
  months :: "string list"
  activation_time :: string
  recurrence :: "string option"
  interval_days :: "int option"
  last_run_date :: "string option"

text \<open>
  The content of \<^verbatim>\<open>/data/program_state.json\<close>: missing (OSError on open), not JSON
  (ValueError), JSON that is not an object, or an object with the values that
  \<^verbatim>\<open>state.get('program_running')\<close> and \<^verbatim>\<open>state.get('current_program_id')\<close> return.
\<close>

datatype state_file = FileMissing | FileCorrupt | FileNotDict | FileDict pyval pyval

text \<open>What the other tasks of the cooperative scheduler may do while one task sleeps.\<close>

datatype env_action = EnvIdle | EnvStopProgram | EnvTimer nat int

text \<open>Effects on the outputs and on the run-state file, in the order they happen.\<close>

datatype event = ZoneOut int bool | RelayOut bool | Persisted bool pyval

record state =
  ps_program_running :: bool
  ps_current_program_id :: pyval
  program_state_file :: state_file
  fs_writable :: bool
  zm_program_running :: bool
  active_zones :: "(int \<times> zone_data) list"
  zone_pins :: "int list"
  pins_on :: "int set"
  pin_fault :: "int set"
  safety_relay :: bool
  relay_on :: bool
  relay_fault :: bool
  max_zone_duration :: "int option"
  max_active_zones :: "int option"
  activation_delay :: "int option"
  next_task :: nat
  cancelled :: "nat set"
  clock :: int
  pm_program_running :: bool
  pm_current_program_id :: pyval
  programs_file :: "(string \<times> program) list"
  pending :: "env_action list"
  trace :: "event list"

text \<open>
  \<open>zone_pins\<close> lists the keys of the dict of that name; \<open>pins_on\<close> holds the zones
  whose output is energized (pin value 0, the relays are active low); a write to a pin in
  \<open>pin_fault\<close> raises. \<open>safety_relay\<close> says whether the relay pin exists.
\<close>

subsection \<open>program\_state.py\<close>

text \<open>
  The file is written only when the file system accepts it; an OSError is caught and
  logged by the callers, which leaves the file as it was.
\<close>

definition write_state_file :: "state \<Rightarrow> state" where
  "write_state_file s =
     s\<lparr>program_state_file :=
          FileDict (VBool (ps_program_running s)) (ps_current_program_id s),
       trace := trace s @ [Persisted (ps_program_running s) (ps_current_program_id s)]\<rparr>"

definition verify_save :: "state \<Rightarrow> state" where
  "verify_save s =
     (case program_state_file s of
        FileDict r i \<Rightarrow>
          if r \<noteq> VBool (ps_program_running s) \<or> i \<noteq> ps_current_program_id s
          then (if fs_writable s then write_state_file s else s)
          else s
      | _ \<Rightarrow> (if fs_writable s then write_state_file s else s))"

definition save_program_state :: "state \<Rightarrow> state" where
  "save_program_state s =
     (if fs_writable s then verify_save (write_state_file s) else s)"

definition load_program_state :: "state \<Rightarrow> state" where
  "load_program_state s =
     (case program_state_file s of
        FileDict loaded_running loaded_id \<Rightarrow>
          let s1 = (if loaded_running \<noteq> VNone then
                      (if \<not> truthy loaded_running \<and> ps_program_running s
                       then save_program_state s
                       else s\<lparr>ps_program_running := truthy loaded_running\<rparr>)
                    else s)
          in (if loaded_id \<noteq> VNone then s1\<lparr>ps_current_program_id := loaded_id\<rparr>
              else if \<not> truthy loaded_running then s1\<lparr>ps_current_program_id := VNone\<rparr>
              else s1)
      | _ \<Rightarrow>
          save_program_state
            (if \<not> ps_program_running s
             then s\<lparr>ps_program_running := False, ps_current_program_id := VNone\<rparr>
             else s))"

text \<open>The globals as the modules' top-level code leaves them, on a board with two zones.\<close>

definition boot :: state where
  "boot = \<lparr>ps_program_running = False, ps_current_program_id = VNone,
           program_state_file = FileDict (VBool False) VNone, fs_writable = True,
           zm_program_running = False, active_zones = [], zone_pins = [0, 1],
           pins_on = {}, pin_fault = {}, safety_relay = True, relay_on = False,
           relay_fault = False, max_zone_duration = Some 180, max_active_zones = Some 1,
           activation_delay = Some 0, next_task = 0, cancelled = {}, clock = 0,
           pm_program_running = False, pm_current_program_id = VNone,
           programs_file = [], pending = [], trace = []\<rparr>"

subsection \<open>zone\_manager.py\<close>

definition max_zone_duration_of :: "state \<Rightarrow> int" where
  "max_zone_duration_of s = (case max_zone_duration s of None \<Rightarrow> 180 | Some m \<Rightarrow> m)"

definition max_active_zones_of :: "state \<Rightarrow> int" where
  "max_active_zones_of s = (case max_active_zones s of None \<Rightarrow> 1 | Some m \<Rightarrow> m)"

definition get_active_zones_count :: "state \<Rightarrow> nat" where
  "get_active_zones_count s = dict_len (active_zones s)"

text \<open>Writes to the output pins. \<open>None\<close> is the exception a faulty pin raises.\<close>

definition zone_pin_value :: "int \<Rightarrow> bool \<Rightarrow> state \<Rightarrow> state option" where
  "zone_pin_value z on s =
     (if z \<in> pin_fault s then None
      else Some (s\<lparr>pins_on := (if on then insert z (pins_on s) else pins_on s - {z}),
                   trace := trace s @ [ZoneOut z on]\<rparr>))"

definition safety_relay_value :: "bool \<Rightarrow> state \<Rightarrow> state option" where
  "safety_relay_value on s =
     (if relay_fault s then None
      else Some (s\<lparr>relay_on := on, trace := trace s @ [RelayOut on]\<rparr>))"

definition cancel_task :: "nat \<Rightarrow> state \<Rightarrow> state" where
  "cancel_task t s = s\<lparr>cancelled := insert t (cancelled s)\<rparr>"

text \<open>
  \<^verbatim>\<open>start_zone\<close>. The run-state test reads the name \<^verbatim>\<open>program_running\<close> of
  \<^verbatim>\<open>zone_manager\<close> itself, bound by the import at the top of the module.
\<close>

definition start_zone :: "state \<Rightarrow> pyval \<Rightarrow> pyval \<Rightarrow> bool \<times> state" where
  "start_zone s zone_id0 duration0 =
     (case py_int zone_id0 of
        None \<Rightarrow> (False, s)
      | Some zone_id \<Rightarrow>
     (case py_int duration0 of
        None \<Rightarrow> (False, s)
      | Some dur \<Rightarrow>
          let s1 = load_program_state s in
          if zm_program_running s1 then (False, s1)
          else if zone_id \<notin> set (zone_pins s1) then (False, s1)
          else if dur \<le> 0 \<or> dur > max_zone_duration_of s1 then (False, s1)
          else if int (dict_len (active_zones s1)) \<ge> max_active_zones_of s1
                  \<and> \<not> dict_has zone_id (active_zones s1) then (False, s1)
          else
            let old_task = map_option task (map_of (active_zones s1) zone_id);
                first = (safety_relay s1 \<and> active_zones s1 = [])
            in (case (if first then safety_relay_value True s1 else Some s1) of
                  None \<Rightarrow> (False, s1)
                | Some s2 \<Rightarrow>
                   (case zone_pin_value zone_id True s2 of
                      None \<Rightarrow>
                        (False, if first
                                then (case safety_relay_value False s2 of
                                        None \<Rightarrow> s2 | Some s3 \<Rightarrow> s3)
                                else s2)
                    | Some s3 \<Rightarrow>
                        let s4 = (case old_task of None \<Rightarrow> s3
                                  | Some t \<Rightarrow> cancel_task t s3);
                            t' = next_task s4
                        in (True,
                            s4\<lparr>next_task := Suc t',
                               active_zones :=
                                 dict_set zone_id
                                   \<lparr>start_time = clock s4, duration = dur, task = t'\<rparr>
                                   (active_zones s4)\<rparr>)))))"

text \<open>\<^verbatim>\<open>_safe_stop_zone\<close>, the stop the auto-off timer performs.\<close>

definition safe_stop_zone :: "int \<Rightarrow> state \<Rightarrow> state" where
  "safe_stop_zone zone_id s =
     (if zone_id \<notin> set (zone_pins s) \<or> \<not> dict_has zone_id (active_zones s) then s
      else (case zone_pin_value zone_id False s of
              None \<Rightarrow> s
            | Some s1 \<Rightarrow>
                let was_last_active = (dict_len (active_zones s1) = 1);
                    s2 = s1\<lparr>active_zones := dict_del zone_id (active_zones s1)\<rparr>
                in if safety_relay s2 \<and> was_last_active
                   then (case safety_relay_value False s2 of None \<Rightarrow> s2 | Some s3 \<Rightarrow> s3)
                   else s2))"

text \<open>
  \<^verbatim>\<open>_zone_timer\<close> once its sleep is over: a cancelled task never gets there.
\<close>

definition zone_timer :: "nat \<Rightarrow> int \<Rightarrow> state \<Rightarrow> state" where
  "zone_timer t zone_id s =
     (if t \<in> cancelled s then s
      else if dict_has zone_id (active_zones s) then safe_stop_zone zone_id s
      else s)"

text \<open>
  \<^verbatim>\<open>stop_zone\<close>. The caller is never the zone's own timer task (the timer stops its
  zone through \<^verbatim>\<open>_safe_stop_zone\<close>), so the task found in the entry is cancelled.
\<close>

definition stop_zone :: "state \<Rightarrow> pyval \<Rightarrow> bool \<times> state" where
  "stop_zone s zone_id0 =
     (case py_int zone_id0 of
        None \<Rightarrow> (False, s)
      | Some zone_id \<Rightarrow>
          if zone_id \<notin> set (zone_pins s) then (False, s)
          else
            let zone_data = map_of (active_zones s) zone_id;
                was_last_active =
                  (dict_has zone_id (active_zones s) \<and> dict_len (active_zones s) = 1)
            in (case zone_pin_value zone_id False s of
                  None \<Rightarrow> (False, s)
                | Some s1 \<Rightarrow>
                    let s2 = (if dict_has zone_id (active_zones s1)
                              then (case zone_data of
                                      None \<Rightarrow> s1
                                    | Some zd \<Rightarrow> cancel_task (task zd) s1)
                                   \<lparr>active_zones := dict_del zone_id (active_zones s1)\<rparr>
                              else s1)
                    in if safety_relay s2 \<and> was_last_active \<and> active_zones s2 = []
                       then (case safety_relay_value False s2 of
                               None \<Rightarrow> (False, s2)
                             | Some s3 \<Rightarrow> (True, s3))
                       else (True, s2)))"

text \<open>First phase of \<^verbatim>\<open>stop_all_zones\<close>: \<^verbatim>\<open>stop_zone\<close> on each id of the snapshot.\<close>

fun stop_each :: "int list \<Rightarrow> bool \<times> state \<Rightarrow> bool \<times> state" where
  "stop_each [] acc = acc"
| "stop_each (z # zs) (success, s) =
     (case stop_zone s (VInt z) of
        (ok, s') \<Rightarrow> stop_each zs (if ok then success else False, s'))"

text \<open>
  One round of the second phase. The pin write comes first; when it raises, the handler
  records the failure and the entry stays until the final clear.
\<close>

definition force_stop :: "int \<Rightarrow> bool \<times> state \<Rightarrow> bool \<times> state" where
  "force_stop zone_id acc =
     (case acc of (success, s) \<Rightarrow>
        (case (if zone_id \<in> set (zone_pins s) then zone_pin_value zone_id False s
               else Some s) of
           None \<Rightarrow> (False, s)
         | Some s1 \<Rightarrow>
             let s2 = (case map_of (active_zones s1) zone_id of
                         None \<Rightarrow> s1
                       | Some zd \<Rightarrow> cancel_task (task zd) s1)
             in (success,
                 if dict_has zone_id (active_zones s2)
                 then s2\<lparr>active_zones := dict_del zone_id (active_zones s2)\<rparr>
                 else s2)))"

fun force_each :: "int list \<Rightarrow> bool \<times> state \<Rightarrow> bool \<times> state" where
  "force_each [] acc = acc"
| "force_each (z # zs) acc = force_each zs (force_stop z acc)"

definition stop_all_zones :: "state \<Rightarrow> bool \<times> state" where
  "stop_all_zones s =
     (if active_zones s = [] then (True, s)
      else
        (case stop_each (dict_keys (active_zones s)) (True, s) of
           (success1, s1) \<Rightarrow>
        (case (if active_zones s1 \<noteq> []
               then force_each (dict_keys (active_zones s1)) (success1, s1)
               else (success1, s1)) of
           (success2, s2) \<Rightarrow>
        (case (if safety_relay s2
               then (case safety_relay_value False s2 of
                       None \<Rightarrow> (False, s2)
                     | Some s3 \<Rightarrow> (success2, s3))
               else (success2, s2)) of
           (success3, s3) \<Rightarrow> (success3, s3\<lparr>active_zones := []\<rparr>)))))"

subsection \<open>program\_manager.py: conflicts and recurrence\<close>

text \<open>
  \<^verbatim>\<open>check_program_conflicts\<close>. \<open>exclude_id\<close> is the argument after the function's
  own \<^verbatim>\<open>str(exclude_id)\<close>; the scan skips a key only when that string is non-empty.
\<close>

definition conflict_message :: "string \<Rightarrow> program \<Rightarrow> string" where
  "conflict_message pid existing =
     ''Conflitto con '' @ [CHR 0x27]
       @ (case p_name existing of None \<Rightarrow> ''Programma '' @ pid | Some n \<Rightarrow> n)
       @ [CHR 0x27] @ '' nei mesi e orario selezionati''"

fun scan_conflicts ::
  "program \<Rightarrow> string option \<Rightarrow> (string \<times> program) list \<Rightarrow> bool \<times> string" where
  "scan_conflicts program exclude_id [] = (False, [])"
| "scan_conflicts program exclude_id ((pid, existing) # rest) =
     (if (case exclude_id of None \<Rightarrow> False | Some e \<Rightarrow> e \<noteq> [] \<and> pid = e)
      then scan_conflicts program exclude_id rest
      else if set (months program) \<inter> set (months existing) \<noteq> {}
              \<and> activation_time program = activation_time existing
      then (True, conflict_message pid existing)
      else scan_conflicts program exclude_id rest)"

definition check_program_conflicts ::
  "program \<Rightarrow> (string \<times> program) list \<Rightarrow> string option \<Rightarrow> bool \<times> string" where
  "check_program_conflicts program programs exclude_id =
     (if months program = [] then (False, [])
      else if activation_time program = [] then (False, [])
      else scan_conflicts program exclude_id programs)"


definition days_in_month :: "int \<Rightarrow> int list" where
  "days_in_month year =
     [0, 31, (if year mod 4 = 0 \<and> (year mod 100 \<noteq> 0 \<or> year mod 400 = 0) then 29 else 28),
      31, 30, 31, 30, 31, 31, 30, 31, 30, 31]"

text \<open>
  The loop of \<^verbatim>\<open>_day_of_year\<close> over \<^verbatim>\<open>range(1, month)\<close>; an index past the table
  raises IndexError (\<open>None\<close>).
\<close>

fun add_months :: "int list \<Rightarrow> nat list \<Rightarrow> int \<Rightarrow> int option" where
  "add_months table [] acc = Some acc"
| "add_months table (i # rest) acc =
     (if i < length table then add_months table rest (acc + table ! i) else None)"

definition day_of_year :: "int \<Rightarrow> int \<Rightarrow> int \<Rightarrow> int option" where
  "day_of_year year month day = add_months (days_in_month year) [1..<nat month] day"

text \<open>\<^verbatim>\<open>s.split(sep)\<close> for a one-character separator.\<close>

fun split_on :: "char \<Rightarrow> string \<Rightarrow> string list" where
  "split_on sep [] = [[]]"
| "split_on sep (c # cs) =
     (if c = sep then [] # split_on sep cs
      else (case split_on sep cs of
              [] \<Rightarrow> [[c]]
            | w # ws \<Rightarrow> (c # w) # ws))"

text \<open>
  The \<^verbatim>\<open>try\<close> block of \<^verbatim>\<open>is_program_due_today\<close> that reads the last run: the three
  integers of a \<^verbatim>\<open>Y-M-D\<close> string, then the pair (last\_run\_day, last\_run\_year), both
  \<open>-1\<close> when the key is absent, the value is no string of that form, or a conversion
  raises. \<open>last_run_date = None\<close> stands for a key that is absent or holds no string.
\<close>

definition parse_date :: "string \<Rightarrow> (int \<times> int \<times> int) option" where
  "parse_date s =
     (case split_on CHR ''-'' s of
        [a, b, c] \<Rightarrow>
          (case int_of_str a of None \<Rightarrow> None | Some y \<Rightarrow>
          (case int_of_str b of None \<Rightarrow> None | Some m \<Rightarrow>
          (case int_of_str c of None \<Rightarrow> None | Some d \<Rightarrow> Some (y, m, d))))
      | _ \<Rightarrow> None)"




subsection \<open>program\_manager.py: execution\<close>

text \<open>\<^verbatim>\<open>_get_formatted_date\<close>: \<^verbatim>\<open>f"{t[0]}-{t[1]:02d}-{t[2]:02d}"\<close>.\<close>

fun show_nat :: "nat \<Rightarrow> string" where
  "show_nat n =
     (if n < 10 then [''0123456789'' ! n]
      else show_nat (n div 10) @ [''0123456789'' ! (n mod 10)])"

declare show_nat.simps [simp del]

definition show_int :: "int \<Rightarrow> string" where
  "show_int i = (if i < 0 then CHR ''-'' # show_nat (nat (- i)) else show_nat (nat i))"

definition pad2 :: "string \<Rightarrow> string" where
  "pad2 s = (if length s < 2 then CHR ''0'' # s else s)"

definition format_date :: "int \<times> int \<times> int \<Rightarrow> string" where
  "format_date t =
     (case t of (y, m, d) \<Rightarrow>
        show_int y @ ''-'' @ pad2 (show_int m) @ ''-'' @ pad2 (show_int d))"

text \<open>
  \<^verbatim>\<open>load_programs(force_reload=True)\<close> stores each key in its program;
  \<^verbatim>\<open>save_programs\<close> writes the file when the file system accepts it.
\<close>

definition load_programs :: "state \<Rightarrow> (string \<times> program) list" where
  "load_programs s = map (\<lambda>(k, p). (k, p\<lparr>p_id := Some k\<rparr>)) (programs_file s)"

definition save_programs :: "(string \<times> program) list \<Rightarrow> state \<Rightarrow> state" where
  "save_programs programs s = (if fs_writable s then s\<lparr>programs_file := programs\<rparr> else s)"

definition update_last_run_date :: "string \<Rightarrow> int \<times> int \<times> int \<Rightarrow> state \<Rightarrow> state" where
  "update_last_run_date program_id today s =
     (let programs = load_programs s in
      if dict_has program_id programs
      then save_programs
             (map (\<lambda>(k, p). if k = program_id
                             then (k, p\<lparr>last_run_date := Some (format_date today)\<rparr>)
                             else (k, p)) programs) s
      else s)"

text \<open>The verification loop of \<^verbatim>\<open>stop_program\<close> (\<^verbatim>\<open>for retry in range(3)\<close>).\<close>

fun stop_retry :: "nat \<Rightarrow> state \<Rightarrow> bool \<times> state" where
  "stop_retry 0 s = (False, s)"
| "stop_retry (Suc n) s =
     (let original_running = pm_program_running s;
          original_id = pm_current_program_id s;
          s1 = load_program_state s
      in if pm_program_running s1 = original_running
            \<and> pm_current_program_id s1 = original_id
         then (True, s1)
         else stop_retry n
                (save_program_state
                   (s1\<lparr>pm_program_running := original_running,
                       pm_current_program_id := original_id\<rparr>)))"

definition stop_program :: "state \<Rightarrow> bool \<times> state" where
  "stop_program s =
     (let original_running = pm_program_running s;
          original_id = pm_current_program_id s;
          s1 = load_program_state s;
          s2 = (if \<not> pm_program_running s1 \<and> original_running
                then s1\<lparr>pm_program_running := True, pm_current_program_id := original_id\<rparr>
                else s1)
      in if \<not> pm_program_running s2 then (False, s2)
         else
           let s3 = snd (stop_all_zones s2);
               s4 = save_program_state
                      (s3\<lparr>pm_program_running := False, pm_current_program_id := VNone\<rparr>)
           in (True, snd (stop_retry 3 s4)))"

definition reset_program_state :: "state \<Rightarrow> state" where
  "reset_program_state s =
     save_program_state
       ((snd (stop_all_zones s))
          \<lparr>pm_program_running := False, pm_current_program_id := VNone\<rparr>)"

text \<open>
  \<^verbatim>\<open>await asyncio.sleep(n)\<close>: the clock advances (whole seconds) and the next pending
  action of the other tasks runs.
\<close>

fun env_apply :: "env_action \<Rightarrow> state \<Rightarrow> state" where
  "env_apply EnvIdle s = s"
| "env_apply EnvStopProgram s = snd (stop_program s)"
| "env_apply (EnvTimer t z) s = zone_timer t z s"

definition sleep :: "int \<Rightarrow> state \<Rightarrow> state" where
  "sleep secs s =
     (case pending s of
        [] \<Rightarrow> s\<lparr>clock := clock s + secs\<rparr>
      | a # rest \<Rightarrow> env_apply a (s\<lparr>clock := clock s + secs, pending := rest\<rparr>))"

text \<open>The verification loop after the claim in \<^verbatim>\<open>execute_program\<close>.\<close>

fun claim_retry :: "nat \<Rightarrow> pyval \<Rightarrow> state \<Rightarrow> bool \<times> state" where
  "claim_retry 0 program_id s = (False, s)"
| "claim_retry (Suc n) program_id s =
     (let s1 = load_program_state s
      in if pm_program_running s1 \<and> pm_current_program_id s1 = program_id
         then (True, s1)
         else claim_retry n program_id
                (sleep 0
                   (save_program_state
                      (s1\<lparr>pm_program_running := True,
                          pm_current_program_id := program_id\<rparr>))))"

text \<open>
  The polled wait, used for a step's duration and for the delay between zones: both
  loops of the source have this body.
\<close>

function wait_poll :: "int \<Rightarrow> state \<Rightarrow> state" where
  "wait_poll remaining s =
     (if remaining > 0 \<and> pm_program_running s then
        (let wait_time = min 10 remaining;
             s1 = load_program_state (sleep wait_time s)
         in if \<not> pm_program_running s1 then s1
            else wait_poll (remaining - wait_time) s1)
      else s)"
  by pat_completeness auto
termination
  by (relation "measure (\<lambda>(remaining, s). nat remaining)") auto

declare wait_poll.simps [simp del]

datatype outcome = Completed | Interrupted | Raised

text \<open>
  The \<^verbatim>\<open>for\<close> loop over the steps: \<open>n\<close> is \<^verbatim>\<open>len(steps)\<close>, \<open>i\<close> the index.
  A string duration passes \<^verbatim>\<open>start_zone\<close>, which converts it, but
  \<^verbatim>\<open>duration * 60\<close> is then a string and \<^verbatim>\<open>remaining_seconds > 0\<close> raises.
\<close>

fun run_steps :: "nat \<Rightarrow> nat \<Rightarrow> int \<Rightarrow> step list \<Rightarrow> state \<Rightarrow> outcome \<times> state" where
  "run_steps n i delay [] s = (Completed, s)"
| "run_steps n i delay (st # rest) s =
     (let s1 = load_program_state s in
      if \<not> pm_program_running s1 then (Interrupted, s1)
      else
        (case st of
           StepNotDict \<Rightarrow> run_steps n (Suc i) delay rest s1
         | Step zone_id dur_opt \<Rightarrow>
             let dur = (case dur_opt of None \<Rightarrow> VInt 1 | Some d \<Rightarrow> d) in
             if zone_id = VNone then run_steps n (Suc i) delay rest s1
             else
               (case start_zone s1 zone_id dur of
                  (False, s2) \<Rightarrow> run_steps n (Suc i) delay rest s2
                | (True, s2) \<Rightarrow>
                    (case (case dur of VInt d \<Rightarrow> Some (d * 60)
                                    | VBool b \<Rightarrow> Some (if b then 60 else 0)
                                    | _ \<Rightarrow> None) of
                       None \<Rightarrow> (Raised, s2)
                     | Some remaining_seconds \<Rightarrow>
                         let s3 = wait_poll remaining_seconds s2 in
                         if \<not> pm_program_running s3 then (Interrupted, s3)
                         else
                           let s4 = snd (stop_zone s3 zone_id);
                               s5 = (if delay > 0 \<and> int i < int n - 1
                                     then wait_poll delay s4 else s4)
                           in run_steps n (Suc i) delay rest s5))))"

definition activation_delay_of :: "state \<Rightarrow> int" where
  "activation_delay_of s = (case activation_delay s of None \<Rightarrow> 0 | Some d \<Rightarrow> d)"

text \<open>The \<^verbatim>\<open>finally\<close> block of \<^verbatim>\<open>execute_program\<close>.\<close>

definition final_cleanup :: "state \<Rightarrow> state" where
  "final_cleanup s =
     snd (stop_all_zones
            (save_program_state
               (s\<lparr>pm_program_running := False, pm_current_program_id := VNone\<rparr>)))"

text \<open>The \<^verbatim>\<open>try\<close> block: the steps, then the date of the last run.\<close>

definition execute_steps ::
  "int \<times> int \<times> int \<Rightarrow> program \<Rightarrow> string \<Rightarrow> state \<Rightarrow> outcome \<times> bool \<times> state" where
  "execute_steps today program program_id s =
     (case run_steps (length (steps program)) 0 (activation_delay_of s) (steps program) s of
        (oc, s1) \<Rightarrow>
          if oc = Raised then (Raised, False, s1)
          else if pm_program_running s1
          then (oc, True, update_last_run_date program_id today s1)
          else (oc, False, s1))"

definition execute_program ::
  "int \<times> int \<times> int \<Rightarrow> program \<Rightarrow> bool \<Rightarrow> state \<Rightarrow> bool \<times> state" where
  "execute_program today program manual s =
     (let s1 = load_program_state s in
      if pm_program_running s1 then (False, s1)
      else
        let s2 = (if get_active_zones_count s1 > 0
                  then sleep 1 (snd (stop_all_zones s1)) else s1)
        in (case stop_all_zones s2 of
              (False, s3) \<Rightarrow> (False, s3)
            | (True, s3) \<Rightarrow>
                let program_id = (case p_id program of None \<Rightarrow> ''0'' | Some i \<Rightarrow> i);
                    s4 = save_program_state
                           (s3\<lparr>pm_program_running := True,
                               pm_current_program_id := VStr program_id\<rparr>);
                    s5 = snd (claim_retry 3 (VStr program_id) s4)
                in (case execute_steps today program program_id s5 of
                      (oc, result, s6) \<Rightarrow> (result, final_cleanup s6))))"

subsection \<open>Concrete inputs\<close>

text \<open>
  A program is running by every account but the one \<^verbatim>\<open>start_zone\<close> reads: the
  globals of \<^verbatim>\<open>program_state\<close> and \<^verbatim>\<open>program_manager\<close> and the file all say so,
  while the name bound by the import of \<^verbatim>\<open>zone_manager\<close> still has its import-time
  value.
\<close>

definition running_state :: state where
  "running_state =
     boot\<lparr>ps_program_running := True, ps_current_program_id := VStr ''1'',
          program_state_file := FileDict (VBool True) (VStr ''1''),
          pm_program_running := True, pm_current_program_id := VStr ''1''\<rparr>"

text \<open>A stored program whose only step carries its duration as the string \<^verbatim>\<open>"5"\<close>.\<close>

definition string_duration_program :: program where
  "string_duration_program =
     \<lparr>p_id = Some ''1'', p_name = Some ''Orto'',
      steps = [Step (VInt 0) (Some (VStr ''5''))], months = [''Giugno''],
      activation_time = ''06:00'', recurrence = None, interval_days = None,
      last_run_date = None\<rparr>"

definition string_duration_boot :: state where
  "string_duration_boot = boot\<lparr>programs_file := [(''1'', string_duration_program)]\<rparr>"

text \<open>The file holds \<^verbatim>\<open>{"program_running": false, "current_program_id": "3"}\<close>.\<close>

definition idle_file_with_id :: state where
  "idle_file_with_id = boot\<lparr>program_state_file := FileDict (VBool False) (VStr ''3'')\<rparr>"

text \<open>
  Memory believes program 1 is running, the file holds
  \<^verbatim>\<open>{"program_running": false, "current_program_id": null}\<close>.
\<close>

definition running_memory_idle_file :: state where
  "running_memory_idle_file =
     boot\<lparr>ps_program_running := True, ps_current_program_id := VStr ''1''\<rparr>"

text \<open>Zone 0 is recorded active; zone 1 is energized but missing from the bookkeeping.\<close>

definition unrecorded_zone_state :: state where
  "unrecorded_zone_state =
     boot\<lparr>active_zones := [(0, \<lparr>start_time = 0, duration = 5, task = 0\<rparr>)],
          pins_on := {0, 1}, relay_on := True, next_task := 1\<rparr>"

text \<open>Zone 0 runs alone, at the capacity of one active zone.\<close>

definition one_active_state :: state where
  "one_active_state =
     boot\<lparr>active_zones := [(0, \<lparr>start_time = 0, duration = 5, task = 0\<rparr>)],
          pins_on := {0}, relay_on := True, next_task := 1, clock := 60\<rparr>"

text \<open>A daily program for June at 06:00, and the same program without a time.\<close>

definition june_program :: program where
  "june_program =
     \<lparr>p_id = Some ''1'', p_name = Some ''Orto'', steps = [Step (VInt 0) (Some (VInt 1))],
      months = [''Giugno''], activation_time = ''06:00'', recurrence = Some ''giornaliero'',
      interval_days = None, last_run_date = None\<rparr>"

definition untimed_program :: program where
  "untimed_program = june_program\<lparr>activation_time := []\<rparr>"









text \<open>Strings made of decimal digits only.\<close>

definition all_digits :: "string \<Rightarrow> bool" where
  "all_digits s = (\<forall>c \<in> set s. digit_of c \<noteq> None)"









section \<open>Properties\<close>

subsection \<open>Run state store\<close>

lemma save_program_state_frame [simp]:
  "fs_writable (save_program_state s) = fs_writable s"
  "zm_program_running (save_program_state s) = zm_program_running s"
  "active_zones (save_program_state s) = active_zones s"
  "zone_pins (save_program_state s) = zone_pins s"
  "pins_on (save_program_state s) = pins_on s"
  "pin_fault (save_program_state s) = pin_fault s"
  "safety_relay (save_program_state s) = safety_relay s"
  "relay_on (save_program_state s) = relay_on s"
  "relay_fault (save_program_state s) = relay_fault s"
  "max_zone_duration (save_program_state s) = max_zone_duration s"
  "max_active_zones (save_program_state s) = max_active_zones s"
  "activation_delay (save_program_state s) = activation_delay s"
  "next_task (save_program_state s) = next_task s"
  "cancelled (save_program_state s) = cancelled s"
  "clock (save_program_state s) = clock s"
  "pm_program_running (save_program_state s) = pm_program_running s"
  "pm_current_program_id (save_program_state s) = pm_current_program_id s"
  "programs_file (save_program_state s) = programs_file s"
  "pending (save_program_state s) = pending s"
  "ps_program_running (save_program_state s) = ps_program_running s"
  "ps_current_program_id (save_program_state s) = ps_current_program_id s"
  by (simp_all add: save_program_state_def verify_save_def write_state_file_def
        split: state_file.splits)

lemma load_program_state_frame [simp]:
  "fs_writable (load_program_state s) = fs_writable s"
  "zm_program_running (load_program_state s) = zm_program_running s"
  "active_zones (load_program_state s) = active_zones s"
  "zone_pins (load_program_state s) = zone_pins s"
  "pins_on (load_program_state s) = pins_on s"
  "pin_fault (load_program_state s) = pin_fault s"
  "safety_relay (load_program_state s) = safety_relay s"
  "relay_on (load_program_state s) = relay_on s"
  "relay_fault (load_program_state s) = relay_fault s"
  "max_zone_duration (load_program_state s) = max_zone_duration s"
  "max_active_zones (load_program_state s) = max_active_zones s"
  "activation_delay (load_program_state s) = activation_delay s"
  "next_task (load_program_state s) = next_task s"
  "cancelled (load_program_state s) = cancelled s"
  "clock (load_program_state s) = clock s"
  "pm_program_running (load_program_state s) = pm_program_running s"
  "pm_current_program_id (load_program_state s) = pm_current_program_id s"
  "programs_file (load_program_state s) = programs_file s"
  "pending (load_program_state s) = pending s"
  by (simp_all add: load_program_state_def Let_def split: state_file.splits)

text \<open>
  C4. The claim: after every load, \<^verbatim>\<open>current_program_id\<close> is non-null exactly when
  \<^verbatim>\<open>program_running\<close> is true, also for a file that holds running=false with an id.
  The code takes a non-null id from the file before it looks at the running flag: from
  the idle state and the file \<^verbatim>\<open>{"program_running": false, "current_program_id": "3"}\<close>
  the load ends with \<^verbatim>\<open>program_running\<close> false and \<^verbatim>\<open>current_program_id\<close>
  \<^verbatim>\<open>"3"\<close>.
\<close>

theorem load_keeps_id_of_idle_file:
  "\<not> ps_program_running idle_file_with_id
   \<and> ps_current_program_id idle_file_with_id = VNone
   \<and> program_state_file idle_file_with_id = FileDict (VBool False) (VStr ''3'')
   \<and> \<not> ps_program_running (load_program_state idle_file_with_id)
   \<and> ps_current_program_id (load_program_state idle_file_with_id) = VStr ''3''"
  by code_simp

text \<open>
  C9. The claim: when memory says running and the file says not running, the load keeps
  the running belief together with its program id and writes the in-memory state back.
  The code keeps the flag and writes memory back, and then clears the id in memory
  because the file's flag is false: memory ends as running without an id, while the
  file now names program 1.
\<close>

theorem load_drops_id_of_running_memory:
  "ps_program_running running_memory_idle_file
   \<and> ps_current_program_id running_memory_idle_file = VStr ''1''
   \<and> program_state_file running_memory_idle_file = FileDict (VBool False) VNone
   \<and> ps_program_running (load_program_state running_memory_idle_file)
   \<and> ps_current_program_id (load_program_state running_memory_idle_file) = VNone
   \<and> program_state_file (load_program_state running_memory_idle_file)
       = FileDict (VBool True) (VStr ''1'')"
  by code_simp

subsection \<open>Zone controller\<close>

text \<open>
  C1. The claim: a call of \<^verbatim>\<open>start_zone\<close> made while a program is running is
  rejected and energizes nothing. The test in \<^verbatim>\<open>start_zone\<close> reads the name that
  \<^verbatim>\<open>from program_state import program_running\<close> bound when \<^verbatim>\<open>zone_manager\<close>
  was imported; \<^verbatim>\<open>load_program_state\<close> updates the global of \<^verbatim>\<open>program_state\<close>,
  not that name. With a program running by the file and by both other modules, the call
  for zone 0 and 5 minutes succeeds and energizes the relay and the zone.
\<close>

theorem start_zone_accepted_while_program_running:
  "ps_program_running (load_program_state running_state)
   \<and> pm_program_running running_state
   \<and> program_state_file running_state = FileDict (VBool True) (VStr ''1'')
   \<and> fst (start_zone running_state (VInt 0) (VInt 5))
   \<and> 0 \<in> pins_on (snd (start_zone running_state (VInt 0) (VInt 5)))
   \<and> relay_on (snd (start_zone running_state (VInt 0) (VInt 5)))
   \<and> trace (snd (start_zone running_state (VInt 0) (VInt 5)))
       = [RelayOut True, ZoneOut 0 True]"
  by code_simp

text \<open>
  C10. With no zone recorded active, \<^verbatim>\<open>stop_all_zones\<close> returns True and leaves the
  whole state as it was: no pin is written (the trace of writes is part of the state),
  neither by a sweep nor for the relay.
\<close>

theorem stop_all_zones_idle:
  "active_zones s = [] \<Longrightarrow> stop_all_zones s = (True, s)"
  by (simp add: stop_all_zones_def)

theorem stop_all_zones_idle_witness:
  "active_zones (boot\<lparr>relay_on := True, pins_on := {1}\<rparr>) = []
   \<and> stop_all_zones (boot\<lparr>relay_on := True, pins_on := {1}\<rparr>)
       = (True, boot\<lparr>relay_on := True, pins_on := {1}\<rparr>)"
  using stop_all_zones_idle [of "boot\<lparr>relay_on := True, pins_on := {1}\<rparr>"]
  by (simp add: boot_def)

subsection \<open>Program execution\<close>

text \<open>
  C2. The claim: on every path that releases the run state, the zones are stopped before
  the state is persisted as not running. \<^verbatim>\<open>stop_program\<close> does so; the
  \<^verbatim>\<open>finally\<close> block of \<^verbatim>\<open>execute_program\<close> saves the released state first and
  calls \<^verbatim>\<open>stop_all_zones\<close> afterwards. A step whose duration is the string
  \<^verbatim>\<open>"5"\<close> starts its zone and then raises in the wait, so the block runs with zone 0
  energized: the state is persisted as not running (fourth event) before zone 0 and the
  relay are switched off.
\<close>

theorem cleanup_persists_before_stopping_zones:
  "\<not> fst (execute_program (2024, 6, 1) string_duration_program False string_duration_boot)
   \<and> trace (snd (execute_program (2024, 6, 1) string_duration_program False
                   string_duration_boot))
       = [Persisted False VNone, RelayOut True, ZoneOut 0 True,
          Persisted False VNone, ZoneOut 0 False, RelayOut False, RelayOut False]"
  by code_simp

subsection \<open>Conflicts between programs\<close>

lemma scan_conflicts_none:
  "fst (scan_conflicts c None ps) \<longleftrightarrow>
     (\<exists>(pid, q) \<in> set ps.
        set (months c) \<inter> set (months q) \<noteq> {}
        \<and> activation_time c = activation_time q)"
  by (induction ps) (simp_all split: prod.splits)

lemma scan_conflicts_some:
  "fst (scan_conflicts c (Some e) ps) \<longleftrightarrow>
     (\<exists>(pid, q) \<in> set ps.
        \<not> (e \<noteq> [] \<and> pid = e)
        \<and> set (months c) \<inter> set (months q) \<noteq> {}
        \<and> activation_time c = activation_time q)"
proof (cases "e = []")
  case True
  have "fst (scan_conflicts c (Some []) ps) \<longleftrightarrow>
     (\<exists>(pid, q) \<in> set ps.
        set (months c) \<inter> set (months q) \<noteq> {}
        \<and> activation_time c = activation_time q)"
    by (induction ps) (simp_all split: prod.splits)
  with True show ?thesis by simp
next
  case False
  have "fst (scan_conflicts c (Some e) ps) \<longleftrightarrow>
     (\<exists>(pid, q) \<in> set ps. pid \<noteq> e
        \<and> set (months c) \<inter> set (months q) \<noteq> {}
        \<and> activation_time c = activation_time q)"
    using False by (induction ps) (simp_all split: prod.splits)
  with False show ?thesis by simp
qed

lemma scan_conflicts_iff:
  "fst (scan_conflicts c ex ps) \<longleftrightarrow>
     (\<exists>(pid, q) \<in> set ps.
        \<not> (case ex of None \<Rightarrow> False | Some e \<Rightarrow> e \<noteq> [] \<and> pid = e)
        \<and> set (months c) \<inter> set (months q) \<noteq> {}
        \<and> activation_time c = activation_time q)"
  by (cases ex) (simp_all add: scan_conflicts_none scan_conflicts_some)

text \<open>
  C7, as stated: a conflict is reported exactly when another program shares a month and
  has the very same \<^verbatim>\<open>activation_time\<close> string. It fails for a candidate without a
  time: the other program below shares June and its time string (the empty one) equals
  the candidate's, yet no conflict is reported, because the function returns early when
  the candidate has no time.
\<close>

theorem untimed_candidate_never_conflicts:
  "set (months untimed_program) \<inter> set (months untimed_program) \<noteq> {}
   \<and> activation_time untimed_program = activation_time untimed_program
   \<and> \<not> fst (check_program_conflicts untimed_program [(''2'', untimed_program)] None)"
  by code_simp

text \<open>
  C7, amended: \<^verbatim>\<open>check_program_conflicts\<close> reports a conflict exactly when the
  candidate has a non-empty \<^verbatim>\<open>activation_time\<close> and some program of the collection,
  other than the one whose key equals a non-empty \<open>exclude_id\<close>, shares a month with
  the candidate and has the same \<^verbatim>\<open>activation_time\<close> string. Nothing else of the
  programs is read, so the recurrence plays no role.
\<close>

theorem check_program_conflicts_iff:
  "fst (check_program_conflicts c ps ex) \<longleftrightarrow>
     activation_time c \<noteq> []
     \<and> (\<exists>(pid, q) \<in> set ps.
          \<not> (case ex of None \<Rightarrow> False | Some e \<Rightarrow> e \<noteq> [] \<and> pid = e)
          \<and> set (months c) \<inter> set (months q) \<noteq> {}
          \<and> activation_time c = activation_time q)"
  unfolding check_program_conflicts_def
  by (auto simp: scan_conflicts_iff)

theorem check_program_conflicts_iff_witness:
  "fst (check_program_conflicts june_program
          [(''1'', june_program),
           (''2'', june_program\<lparr>recurrence := Some ''giorni_alterni''\<rparr>)] (Some ''1''))
   \<and> \<not> fst (check_program_conflicts june_program
          [(''1'', june_program),
           (''2'', june_program\<lparr>activation_time := ''07:00''\<rparr>)] (Some ''1''))"
  using check_program_conflicts_iff [of june_program
          "[(''1'', june_program),
            (''2'', june_program\<lparr>recurrence := Some ''giorni_alterni''\<rparr>)]" "Some ''1''"]
    check_program_conflicts_iff [of june_program
          "[(''1'', june_program),
            (''2'', june_program\<lparr>activation_time := ''07:00''\<rparr>)]" "Some ''1''"]
  by (simp add: june_program_def)

subsection \<open>Bookkeeping of the active zones\<close>

lemma dict_has_nil [simp]: "\<not> dict_has k []"
  by (simp add: dict_has_def)

lemma dict_has_del [simp]: "dict_has z (dict_del k d) = (z \<noteq> k \<and> dict_has z d)"
  by (auto simp: dict_has_def dict_del_def)

lemma dict_keys_set [simp]: "set (dict_keys d) = {z. dict_has z d}"
  by (auto simp: dict_keys_def dict_has_def)

lemma dict_len_card: "dict_len d = card {z. dict_has z d}"
proof -
  have "{z. dict_has z d} = set (map fst d)" by (auto simp: dict_has_def)
  then show ?thesis by (simp add: dict_len_def dict_keys_def length_remdups_card_conv)
qed

lemma dict_has_finite [simp]: "finite {z. dict_has z d}"
proof -
  have "{z. dict_has z d} = set (map fst d)" by (auto simp: dict_has_def)
  then show ?thesis by simp
qed

lemma dict_len_del_le: "dict_len (dict_del k d) \<le> dict_len d"
  unfolding dict_len_card by (rule card_mono) auto

lemma dict_has_set [simp]: "dict_has z (dict_set k v d) = (z = k \<or> dict_has z d)"
  by (induction d) (auto simp: dict_has_def)


lemma map_of_dict_del [simp]: "map_of (dict_del k d) z = (if z = k then None else map_of d z)"
  by (induction d) (auto simp: dict_del_def)

lemma map_of_dict_set [simp]:
  "map_of (dict_set k v d) z = (if z = k then Some v else map_of d z)"
  by (induction d) auto


lemma stop_zone_frame [simp]:
  "zone_pins (snd (stop_zone s v)) = zone_pins s"
  "pin_fault (snd (stop_zone s v)) = pin_fault s"
  "safety_relay (snd (stop_zone s v)) = safety_relay s"
  "relay_fault (snd (stop_zone s v)) = relay_fault s"
  "programs_file (snd (stop_zone s v)) = programs_file s"
  "pm_program_running (snd (stop_zone s v)) = pm_program_running s"
  "max_active_zones (snd (stop_zone s v)) = max_active_zones s"
  by (simp_all add: stop_zone_def Let_def zone_pin_value_def safety_relay_value_def
        cancel_task_def split: option.splits)

lemma stop_zone_pins_on:
  "pins_on (snd (stop_zone s (VInt z))) =
     (if z \<in> set (zone_pins s) \<and> z \<notin> pin_fault s then pins_on s - {z} else pins_on s)"
  by (simp add: stop_zone_def Let_def zone_pin_value_def safety_relay_value_def cancel_task_def
        split: option.splits)

lemma stop_zone_has:
  "dict_has k (active_zones (snd (stop_zone s v))) \<Longrightarrow> dict_has k (active_zones s)"
  by (auto simp add: stop_zone_def Let_def zone_pin_value_def safety_relay_value_def
        cancel_task_def split: option.splits if_splits)

lemma stop_each_frame:
  "zone_pins (snd (stop_each zs (b, s))) = zone_pins s
   \<and> pin_fault (snd (stop_each zs (b, s))) = pin_fault s
   \<and> safety_relay (snd (stop_each zs (b, s))) = safety_relay s
   \<and> relay_fault (snd (stop_each zs (b, s))) = relay_fault s
   \<and> programs_file (snd (stop_each zs (b, s))) = programs_file s
   \<and> pm_program_running (snd (stop_each zs (b, s))) = pm_program_running s
   \<and> pins_on (snd (stop_each zs (b, s))) =
       pins_on s - {z \<in> set zs. z \<in> set (zone_pins s) \<and> z \<notin> pin_fault s}
   \<and> {k. dict_has k (active_zones (snd (stop_each zs (b, s))))}
       \<subseteq> {k. dict_has k (active_zones s)}"
proof (induction zs arbitrary: b s)
  case Nil
  show ?case by simp
next
  case (Cons z zs)
  obtain ok s1 where st: "stop_zone s (VInt z) = (ok, s1)" by (cases "stop_zone s (VInt z)")
  have s1: "s1 = snd (stop_zone s (VInt z))" using st by simp
  note IH = Cons.IH [of "if ok then b else False" s1]
  have sub: "{k. dict_has k (active_zones s1)} \<subseteq> {k. dict_has k (active_zones s)}"
    unfolding s1 using stop_zone_has by blast
  show ?case
    using IH sub by (simp add: st) (auto simp add: s1 stop_zone_pins_on split: if_splits)
qed

lemma force_stop_frame:
  "zone_pins (snd (force_stop z (b, s))) = zone_pins s
   \<and> pin_fault (snd (force_stop z (b, s))) = pin_fault s
   \<and> safety_relay (snd (force_stop z (b, s))) = safety_relay s
   \<and> relay_fault (snd (force_stop z (b, s))) = relay_fault s
   \<and> programs_file (snd (force_stop z (b, s))) = programs_file s
   \<and> pm_program_running (snd (force_stop z (b, s))) = pm_program_running s
   \<and> pins_on (snd (force_stop z (b, s))) =
       (if z \<in> set (zone_pins s) \<and> z \<notin> pin_fault s then pins_on s - {z} else pins_on s)"
  by (simp add: force_stop_def Let_def zone_pin_value_def cancel_task_def
        split: option.splits)

lemma force_each_frame:
  "zone_pins (snd (force_each zs (b, s))) = zone_pins s
   \<and> pin_fault (snd (force_each zs (b, s))) = pin_fault s
   \<and> safety_relay (snd (force_each zs (b, s))) = safety_relay s
   \<and> relay_fault (snd (force_each zs (b, s))) = relay_fault s
   \<and> programs_file (snd (force_each zs (b, s))) = programs_file s
   \<and> pm_program_running (snd (force_each zs (b, s))) = pm_program_running s
   \<and> pins_on (snd (force_each zs (b, s))) =
       pins_on s - {z \<in> set zs. z \<in> set (zone_pins s) \<and> z \<notin> pin_fault s}"
proof (induction zs arbitrary: b s)
  case Nil
  show ?case by simp
next
  case (Cons z zs)
  obtain b1 s1 where st: "force_stop z (b, s) = (b1, s1)" by (cases "force_stop z (b, s)")
  have s1: "s1 = snd (force_stop z (b, s))" using st by simp
  note IH = Cons.IH [of b1 s1]
  note F = force_stop_frame [of z b s]
  show ?case
    using IH F by (simp add: st) (auto simp add: s1 split: if_splits)
qed

lemma stop_all_zones_effect:
  assumes "stop_all_zones s = (ok, s')"
  shows "active_zones s' = []"
    and "zone_pins s' = zone_pins s" and "pin_fault s' = pin_fault s"
    and "safety_relay s' = safety_relay s" and "relay_fault s' = relay_fault s"
    and "programs_file s' = programs_file s"
    and "pm_program_running s' = pm_program_running s"
    and "pins_on s' = pins_on s
           - {z. dict_has z (active_zones s) \<and> z \<in> set (zone_pins s) \<and> z \<notin> pin_fault s}"
    and "active_zones s \<noteq> [] \<Longrightarrow> safety_relay s \<Longrightarrow> \<not> relay_fault s \<Longrightarrow> \<not> relay_on s'"
proof -
  define r1 where "r1 = stop_each (dict_keys (active_zones s)) (True, s)"
  define s1 where "s1 = snd r1"
  define s2 where "s2 = (if active_zones s1 \<noteq> []
                         then snd (force_each (dict_keys (active_zones s1)) (fst r1, s1))
                         else s1)"
  define s3 where "s3 = (if safety_relay s2 \<and> \<not> relay_fault s2
                         then s2\<lparr>relay_on := False, trace := trace s2 @ [RelayOut False]\<rparr>
                         else s2)"
  have E: "zone_pins s1 = zone_pins s" "pin_fault s1 = pin_fault s"
    "safety_relay s1 = safety_relay s" "relay_fault s1 = relay_fault s"
    "programs_file s1 = programs_file s" "pm_program_running s1 = pm_program_running s"
    "pins_on s1 = pins_on s
       - {z \<in> set (dict_keys (active_zones s)). z \<in> set (zone_pins s) \<and> z \<notin> pin_fault s}"
    "{k. dict_has k (active_zones s1)} \<subseteq> {k. dict_has k (active_zones s)}"
    using stop_each_frame [of "dict_keys (active_zones s)" True s]
    unfolding s1_def r1_def by blast+
  have F: "zone_pins s2 = zone_pins s1" "pin_fault s2 = pin_fault s1"
    "safety_relay s2 = safety_relay s1" "relay_fault s2 = relay_fault s1"
    "programs_file s2 = programs_file s1" "pm_program_running s2 = pm_program_running s1"
    "pins_on s2 = pins_on s1 \<or> pins_on s2 = pins_on s1
       - {z \<in> set (dict_keys (active_zones s1)). z \<in> set (zone_pins s1) \<and> z \<notin> pin_fault s1}"
    using force_each_frame [of "dict_keys (active_zones s1)" "fst r1" s1]
    unfolding s2_def by simp_all
  have P: "pins_on s2 = pins_on s
       - {z. dict_has z (active_zones s) \<and> z \<in> set (zone_pins s) \<and> z \<notin> pin_fault s}"
    using F(7) E(1,2,7,8) by auto
  have eq: "s' = s3\<lparr>active_zones := []\<rparr>" if "active_zones s \<noteq> []"
    using assms that
    by (simp add: stop_all_zones_def case_prod_beta safety_relay_value_def
          s3_def s2_def s1_def r1_def split: if_splits)
  have idle: "s' = s" if "active_zones s = []"
    using assms that by (simp add: stop_all_zones_def)
  have G: "zone_pins s3 = zone_pins s" "pin_fault s3 = pin_fault s"
    "safety_relay s3 = safety_relay s" "relay_fault s3 = relay_fault s"
    "programs_file s3 = programs_file s" "pm_program_running s3 = pm_program_running s"
    "pins_on s3 = pins_on s2"
    "safety_relay s \<Longrightarrow> \<not> relay_fault s \<Longrightarrow> \<not> relay_on s3"
    unfolding s3_def using E F by simp_all
  show "active_zones s' = []" using eq idle by (cases "active_zones s = []") simp_all
  show "zone_pins s' = zone_pins s" using eq idle G by (cases "active_zones s = []") simp_all
  show "pin_fault s' = pin_fault s" using eq idle G by (cases "active_zones s = []") simp_all
  show "safety_relay s' = safety_relay s"
    using eq idle G by (cases "active_zones s = []") simp_all
  show "relay_fault s' = relay_fault s"
    using eq idle G by (cases "active_zones s = []") simp_all
  show "programs_file s' = programs_file s"
    using eq idle G by (cases "active_zones s = []") simp_all
  show "pm_program_running s' = pm_program_running s"
    using eq idle G by (cases "active_zones s = []") simp_all
  show "pins_on s' = pins_on s
           - {z. dict_has z (active_zones s) \<and> z \<in> set (zone_pins s) \<and> z \<notin> pin_fault s}"
    using eq idle G(7) P by (cases "active_zones s = []") simp_all
  show "active_zones s \<noteq> [] \<Longrightarrow> safety_relay s \<Longrightarrow> \<not> relay_fault s \<Longrightarrow> \<not> relay_on s'"
    using eq G(8) by simp
qed

text \<open>
  C3, as stated: after \<^verbatim>\<open>stop_all_zones\<close> every configured zone output is off,
  whatever the bookkeeping says. Zone 1 is configured and energized but not recorded in
  \<^verbatim>\<open>active_zones\<close>; zone 0 is recorded. The call stops zone 0 and the relay, and
  zone 1 stays energized: both phases iterate over the recorded zones only.
\<close>

theorem stop_all_zones_leaves_unrecorded_zone:
  "1 \<in> set (zone_pins unrecorded_zone_state)
   \<and> 1 \<notin> pin_fault unrecorded_zone_state
   \<and> active_zones unrecorded_zone_state \<noteq> []
   \<and> fst (stop_all_zones unrecorded_zone_state)
   \<and> 1 \<in> pins_on (snd (stop_all_zones unrecorded_zone_state))"
  by code_simp

text \<open>
  C3, amended: after \<^verbatim>\<open>stop_all_zones\<close> returns, the active-zone count is 0, for
  every prior state and every outcome of the per-zone stops. The outputs switched off are
  exactly those of the zones that were recorded active at entry, are configured and whose
  pin accepts the write; no other zone output changes. If at least one zone was recorded
  active at entry and the safety relay exists and accepts the write, the relay is
  de-energized. With no zone recorded active at entry the state is left as it was.
\<close>

theorem stop_all_zones_clears_recorded_zones:
  "stop_all_zones s = (ok, s') \<Longrightarrow>
     get_active_zones_count s' = 0
     \<and> pins_on s' = pins_on s
         - {z. dict_has z (active_zones s) \<and> z \<in> set (zone_pins s) \<and> z \<notin> pin_fault s}
     \<and> (active_zones s \<noteq> [] \<and> safety_relay s \<and> \<not> relay_fault s \<longrightarrow> \<not> relay_on s')
     \<and> (active_zones s = [] \<longrightarrow> s' = s)"
proof -
  assume a: "stop_all_zones s = (ok, s')"
  have "get_active_zones_count s' = 0"
    using stop_all_zones_effect(1) [OF a]
    by (simp add: get_active_zones_count_def dict_len_def dict_keys_def)
  moreover have "active_zones s = [] \<longrightarrow> s' = s"
    using a by (auto simp add: stop_all_zones_def)
  ultimately show ?thesis
    using stop_all_zones_effect(8) [OF a] stop_all_zones_effect(9) [OF a] by blast
qed

theorem stop_all_zones_clears_recorded_zones_witness:
  "get_active_zones_count (snd (stop_all_zones one_active_state)) = 0
   \<and> pins_on (snd (stop_all_zones one_active_state)) = {}
   \<and> \<not> relay_on (snd (stop_all_zones one_active_state))"
  using stop_all_zones_clears_recorded_zones
          [of one_active_state "fst (stop_all_zones one_active_state)"
              "snd (stop_all_zones one_active_state)"]
  by (simp add: one_active_state_def boot_def dict_has_def)

subsection \<open>Capacity of the zone controller\<close>

lemma settings_of_load [simp]:
  "max_active_zones_of (load_program_state s) = max_active_zones_of s"
  "max_zone_duration_of (load_program_state s) = max_zone_duration_of s"
  by (simp_all add: max_active_zones_of_def max_zone_duration_of_def)

lemma start_zone_settings [simp]:
  "max_active_zones (snd (start_zone s zid d)) = max_active_zones s"
  by (simp add: start_zone_def Let_def zone_pin_value_def safety_relay_value_def
        cancel_task_def split: option.splits)











subsection \<open>Recurrence\<close>

lemma split_on_no_sep: "w \<in> set (split_on sep s) \<Longrightarrow> sep \<notin> set w"
  by (induction s arbitrary: w) (auto split: if_splits list.splits)

lemma strip_subset: "set (strip w) \<subseteq> set w"
proof -
  have "set (strip w) \<subseteq> set (rev (dropWhile is_blank w))"
    unfolding strip_def using set_dropWhileD by fastforce
  also have "\<dots> \<subseteq> set w" using set_dropWhileD by fastforce
  finally show ?thesis .
qed

lemma int_of_str_nonneg:
  assumes "CHR ''-'' \<notin> set w" "int_of_str w = Some n"
  shows "0 \<le> n"
proof -
  have "CHR ''-'' \<notin> set (strip w)" using assms(1) strip_subset by blast
  then show ?thesis
    using assms(2)
    by (auto simp: int_of_str_def parse_unsigned_def split: list.splits if_splits)
qed

lemma parse_date_day_nonneg: "parse_date s = Some (y, m, d) \<Longrightarrow> 0 \<le> d"
proof -
  assume a: "parse_date s = Some (y, m, d)"
  then obtain a1 b1 c1 where sp: "split_on CHR ''-'' s = [a1, b1, c1]"
    and c: "int_of_str c1 = Some d"
    by (auto simp: parse_date_def split: list.splits option.splits)
  have "c1 \<in> set (split_on CHR ''-'' s)" using sp by simp
  then have "CHR ''-'' \<notin> set c1" by (rule split_on_no_sep)
  then show ?thesis using c by (rule int_of_str_nonneg)
qed

lemma add_months_ge:
  "\<forall>x \<in> set table. 0 \<le> x \<Longrightarrow> add_months table is acc = Some n \<Longrightarrow> acc \<le> n"
proof (induction "is" arbitrary: acc)
  case Nil
  then show ?case by simp
next
  case (Cons i "is")
  from Cons.prems(2) have i: "i < length table"
    and r: "add_months table is (acc + table ! i) = Some n"
    by (auto split: if_splits)
  have "0 \<le> table ! i" using Cons.prems(1) i by simp
  moreover have "acc + table ! i \<le> n" using Cons.IH [OF Cons.prems(1) r] .
  ultimately show ?case by simp
qed

lemma day_of_year_ge: "day_of_year y m d = Some n \<Longrightarrow> d \<le> n"
  unfolding day_of_year_def
  by (rule add_months_ge [of "days_in_month y"]) (auto simp: days_in_month_def)










lemma digit_of_Some: "digit_of c = Some k \<Longrightarrow> c \<in> set ''0123456789''"
  by (simp add: digit_of_def split: if_splits)

lemma all_digits_simps [simp]:
  "all_digits []" "all_digits (c # s) = (digit_of c \<noteq> None \<and> all_digits s)"
  "all_digits (s @ t) = (all_digits s \<and> all_digits t)"
  by (auto simp: all_digits_def)


























subsection \<open>Interrupted and completed runs\<close>

text \<open>Nothing a run does before its last phase touches the stored programs.\<close>

lemma start_zone_pm [simp]:
  "programs_file (snd (start_zone s z d)) = programs_file s"
  "pm_program_running (snd (start_zone s z d)) = pm_program_running s"
  by (simp_all add: start_zone_def Let_def zone_pin_value_def safety_relay_value_def
        cancel_task_def split: option.splits)

lemma safe_stop_zone_programs [simp]:
  "programs_file (safe_stop_zone z s) = programs_file s"
  by (simp add: safe_stop_zone_def Let_def zone_pin_value_def safety_relay_value_def
        split: option.splits)

lemma zone_timer_programs [simp]: "programs_file (zone_timer t z s) = programs_file s"
  by (simp add: zone_timer_def)

lemma stop_all_zones_programs [simp]:
  "programs_file (snd (stop_all_zones s)) = programs_file s"
  using stop_all_zones_effect(6) [of s "fst (stop_all_zones s)" "snd (stop_all_zones s)"]
  by simp

lemma stop_retry_programs [simp]: "programs_file (snd (stop_retry n s)) = programs_file s"
  by (induction n arbitrary: s) (simp_all add: Let_def)

lemma stop_program_programs [simp]: "programs_file (snd (stop_program s)) = programs_file s"
  by (simp add: stop_program_def Let_def)

lemma env_apply_programs [simp]: "programs_file (env_apply a s) = programs_file s"
  by (cases a) simp_all

lemma sleep_programs [simp]: "programs_file (sleep n s) = programs_file s"
  by (simp add: sleep_def split: list.splits)

lemma claim_retry_programs [simp]:
  "programs_file (snd (claim_retry n pid s)) = programs_file s"
  by (induction n arbitrary: s) (simp_all add: Let_def)

lemma wait_poll_programs [simp]: "programs_file (wait_poll r s) = programs_file s"
proof (induction r s rule: wait_poll.induct)
  case (1 remaining s)
  show ?case
    using 1 by (subst wait_poll.simps) (simp add: Let_def)
qed



lemma final_cleanup_programs [simp]: "programs_file (final_cleanup s) = programs_file s"
  by (simp add: final_cleanup_def)






end
